theory Spec2Isabelle
  imports Main "HOL-Library.Multiset" "HOL-Library.Char_ord" "HOL-Library.List_Lexorder"
begin

section \<open>Python values, exceptions and strings\<close>

text \<open>
  The values \<open>json.load\<close> produces, which are also the values the attribute
  \<open>Comic.url\<close> can hold: \<open>JNull\<close> is Python's \<open>None\<close> (the initial value of
  \<open>self.url\<close>), \<open>JObj\<close> is a parsed \<open>dict\<close> (keys distinct, looked up with
  \<open>map_of\<close>). Non-integer JSON numbers are left out.
\<close>

datatype json =
    JNull
  | JBool bool
  | JNum int
  | JStr string
  | JArr "json list"
  | JObj "(string \<times> json) list"

text \<open>Python truthiness, as \<open>if self.url\<close> and \<open>if not self.url\<close> test it.\<close>

fun truthy :: "json \<Rightarrow> bool" where
  "truthy JNull = False"
| "truthy (JBool b) = b"
| "truthy (JNum n) = (n \<noteq> 0)"
| "truthy (JStr s) = (s \<noteq> [])"
| "truthy (JArr xs) = (xs \<noteq> [])"
| "truthy (JObj kvs) = (kvs \<noteq> [])"

text \<open>
  The exception classes the program can meet. \<open>OtherException\<close> stands for any
  further subclass of \<open>Exception\<close> (what the \<open>sh\<close> package raises for a
  missing tool, a non-zero exit status or a signal); \<open>KeyboardInterrupt\<close> stands
  for the exceptions that are no subclass of \<open>Exception\<close>
  (\<open>KeyboardInterrupt\<close>, \<open>SystemExit\<close>), which \<open>except Exception\<close> lets pass.
\<close>

datatype exn =
    KeyError string
  | TypeError
  | JSONDecodeError
  | UnicodeDecodeError
  | BadZipFile
  | FileNotFoundError
  | FileExistsError
  | NotADirectoryError
  | OtherException string
  | KeyboardInterrupt

fun is_Exception :: "exn \<Rightarrow> bool" where
  "is_Exception KeyboardInterrupt = False"
| "is_Exception (KeyError k) = True"
| "is_Exception TypeError = True"
| "is_Exception JSONDecodeError = True"
| "is_Exception UnicodeDecodeError = True"
| "is_Exception BadZipFile = True"
| "is_Exception FileNotFoundError = True"
| "is_Exception FileExistsError = True"
| "is_Exception NotADirectoryError = True"
| "is_Exception (OtherException x) = True"

definition startswith :: "string \<Rightarrow> string \<Rightarrow> bool" where
  "startswith s p = (take (length p) s = p)"

definition endswith :: "string \<Rightarrow> string \<Rightarrow> bool" where
  "endswith s p = startswith (rev s) (rev p)"

text \<open>\<open>sub in s\<close> for two strings: \<open>sub\<close> occurs in \<open>s\<close> as a substring.\<close>

primrec str_contains :: "string \<Rightarrow> string \<Rightarrow> bool" where
  "str_contains sub [] = (sub = [])"
| "str_contains sub (c # cs) = (startswith (c # cs) sub \<or> str_contains sub cs)"

text \<open>
  \<open>word in url\<close> where \<open>url\<close> is whatever \<open>self.url\<close> holds: substring test on a
  string, membership in a list, key membership in a dict, and
  \<open>TypeError: argument of type ... is not iterable\<close> on \<open>None\<close>, a bool or a number.
\<close>

fun py_in :: "string \<Rightarrow> json \<Rightarrow> exn + bool" where
  "py_in w (JStr s) = Inr (str_contains w s)"
| "py_in w (JArr xs) = Inr (JStr w \<in> set xs)"
| "py_in w (JObj kvs) = Inr (w \<in> fst ` set kvs)"
| "py_in w JNull = Inl TypeError"
| "py_in w (JBool b) = Inl TypeError"
| "py_in w (JNum n) = Inl TypeError"

text \<open>
  \<open>comic_config['url']\<close>: the value under the key on a dict, \<open>KeyError\<close> when the
  key is missing, \<open>TypeError\<close> when the parsed document is not a dict.
\<close>

fun subscript :: "json \<Rightarrow> string \<Rightarrow> exn + json" where
  "subscript (JObj kvs) k = (case map_of kvs k of None \<Rightarrow> Inl (KeyError k) | Some v \<Rightarrow> Inr v)"
| "subscript JNull k = Inl TypeError"
| "subscript (JBool b) k = Inl TypeError"
| "subscript (JNum n) k = Inl TypeError"
| "subscript (JStr s) k = Inl TypeError"
| "subscript (JArr xs) k = Inl TypeError"

text \<open>
  \<open>re.search(r"Site: (.*)", text, re.MULTILINE)\<close> and \<open>groups()[0]\<close> of the match:
  the leftmost occurrence of \<open>Site: \<close> anywhere in the text (the pattern has no
  anchor, so \<open>re.MULTILINE\<close> changes nothing), and after it every character up to
  the next line feed, which \<open>.\<close> does not match. \<open>None\<close> when there is no
  occurrence.
\<close>

fun search_site :: "string \<Rightarrow> string option" where
  "search_site [] = None"
| "search_site (c # cs) =
     (if startswith (c # cs) ''Site: ''
      then Some (takeWhile (\<lambda>x. x \<noteq> CHR 0x0A) (drop 6 (c # cs)))
      else search_site cs)"

section \<open>Module constants\<close>

definition PREFERRED_ARGS :: "string list" where
  "PREFERRED_ARGS =
     [''--cbz'', ''--zero-fill'', ''--rename-pages'', ''--no-webp'',
      ''--show-current-chapter-info'']"

definition PREFERRED_LANG :: string where
  "PREFERRED_LANG = ''gb''"

definition SKIPPED :: "string list" where
  "SKIPPED = []"

definition SINGLE_COMIC_CONFIG_FILE_NAME :: string where
  "SINGLE_COMIC_CONFIG_FILE_NAME = ''info.json''"

section \<open>The file system\<close>

text \<open>
  \<open>st_mtime\<close> is only ever compared, so an integer stands for it. An entry of a
  title folder is kept as what the program's calls make of it, each of which may
  raise: \<open>e_stat\<close> is what \<open>stat().st_mtime\<close> gives (a dangling link raises),
  \<open>as_json\<close> is what opening the file and \<open>json.load\<close> give, \<open>as_zip\<close> is what
  \<open>zipfile.ZipFile\<close> gives, the members in the order of the archive, each with what
  \<open>read().decode()\<close> of it gives. \<open>json_text j\<close> is the content that
  \<open>json.dump\<close> writes for \<open>j\<close>.

  A child of a base directory is a directory, a regular file, a symbolic link that
  resolves to a directory (\<open>stat\<close> and the listing go through the link), a symbolic
  link that resolves to a file, or a dangling symbolic link. A base directory is
  its listing, in the order \<open>glob\<close> yields it.
\<close>

type_synonym mtime = int

type_synonym archive = "(string \<times> (exn + string)) list"

datatype payload = Payload (as_json: "exn + json") (as_zip: "exn + archive")

definition json_text :: "json \<Rightarrow> payload" where
  "json_text j = Payload (Inr j) (Inl BadZipFile)"

datatype dirent = Entry (e_stat: "exn + mtime") (e_data: payload)

datatype node =
    Dir mtime "(string \<times> dirent) list"
  | Reg mtime
  | LinkDir mtime "(string \<times> dirent) list"
  | LinkFile mtime
  | LinkBroken

text \<open>A title folder is (base directory, name); a volume is (title folder, file name).\<close>

type_synonym dpath = "string \<times> string"
type_synonym vpath = "dpath \<times> string"

record fsys =
  dirs :: "string \<Rightarrow> (string \<times> node) list"
  clock :: mtime

definition lookup_node :: "fsys \<Rightarrow> dpath \<Rightarrow> node option" where
  "lookup_node f p = map_of (dirs f (fst p)) (snd p)"

fun node_entries :: "node \<Rightarrow> (string \<times> dirent) list" where
  "node_entries (Dir t es) = es"
| "node_entries (LinkDir t es) = es"
| "node_entries (Reg t) = []"
| "node_entries (LinkFile t) = []"
| "node_entries LinkBroken = []"

fun node_is_dir :: "node \<Rightarrow> bool" where
  "node_is_dir (Dir t es) = True"
| "node_is_dir (LinkDir t es) = True"
| "node_is_dir (Reg t) = False"
| "node_is_dir (LinkFile t) = False"
| "node_is_dir LinkBroken = False"

fun node_is_symlink :: "node \<Rightarrow> bool" where
  "node_is_symlink (Dir t es) = False"
| "node_is_symlink (Reg t) = False"
| "node_is_symlink (LinkDir t es) = True"
| "node_is_symlink (LinkFile t) = True"
| "node_is_symlink LinkBroken = True"

text \<open>\<open>Path.stat().st_mtime\<close>: follows links, \<open>FileNotFoundError\<close> on a dangling one.\<close>

fun node_stat :: "node \<Rightarrow> exn + mtime" where
  "node_stat (Dir t es) = Inr t"
| "node_stat (Reg t) = Inr t"
| "node_stat (LinkDir t es) = Inr t"
| "node_stat (LinkFile t) = Inr t"
| "node_stat LinkBroken = Inl FileNotFoundError"

definition is_dir :: "fsys \<Rightarrow> dpath \<Rightarrow> bool" where
  "is_dir f p = (case lookup_node f p of None \<Rightarrow> False | Some n \<Rightarrow> node_is_dir n)"

definition is_symlink :: "fsys \<Rightarrow> dpath \<Rightarrow> bool" where
  "is_symlink f p = (case lookup_node f p of None \<Rightarrow> False | Some n \<Rightarrow> node_is_symlink n)"

definition entries :: "fsys \<Rightarrow> dpath \<Rightarrow> (string \<times> dirent) list" where
  "entries f p = (case lookup_node f p of None \<Rightarrow> [] | Some n \<Rightarrow> node_entries n)"

definition lookup_file :: "fsys \<Rightarrow> vpath \<Rightarrow> dirent option" where
  "lookup_file f v = map_of (entries f (fst v)) (snd v)"

text \<open>\<open>self.path.glob('*.cbz')\<close>: the entries of the folder itself whose name ends in \<open>.cbz\<close>.\<close>

definition glob_cbz :: "fsys \<Rightarrow> dpath \<Rightarrow> vpath list" where
  "glob_cbz f p = map (\<lambda>e. (p, fst e)) (filter (\<lambda>e. endswith (fst e) ''.cbz'') (entries f p))"

text \<open>\<open>f.stat().st_mtime\<close> of a volume, or what \<open>stat\<close> raises.\<close>

definition stat_volume :: "fsys \<Rightarrow> vpath \<Rightarrow> exn + mtime" where
  "stat_volume f v = (case lookup_file f v of None \<Rightarrow> Inl FileNotFoundError | Some x \<Rightarrow> e_stat x)"

text \<open>Replacing the listing of a title folder (a write goes through a link to a directory).\<close>

fun node_set_entries :: "mtime \<Rightarrow> (string \<times> dirent) list \<Rightarrow> node \<Rightarrow> node" where
  "node_set_entries t es (Dir t0 es0) = Dir t es"
| "node_set_entries t es (LinkDir t0 es0) = LinkDir t es"
| "node_set_entries t es (Reg t0) = Reg t0"
| "node_set_entries t es (LinkFile t0) = LinkFile t0"
| "node_set_entries t es LinkBroken = LinkBroken"

fun upd_assoc :: "'k \<Rightarrow> ('v \<Rightarrow> 'v) \<Rightarrow> ('k \<times> 'v) list \<Rightarrow> ('k \<times> 'v) list" where
  "upd_assoc k g [] = []"
| "upd_assoc k g (kv # kvs) = (if fst kv = k then (k, g (snd kv)) # kvs else kv # upd_assoc k g kvs)"

text \<open>
  Writing a file of a title folder, as \<open>open("w")\<close> and \<open>json.dump\<close> do: an existing
  entry keeps its place and gets the new content, a new entry is added to the listing
  (which touches the folder); the file's time is the clock's.
\<close>

definition put_entry :: "mtime \<Rightarrow> string \<Rightarrow> payload \<Rightarrow> node \<Rightarrow> node" where
  "put_entry t k d n =
     (case map_of (node_entries n) k of
        Some old \<Rightarrow>
          node_set_entries (case node_stat n of Inr t0 \<Rightarrow> t0 | Inl e \<Rightarrow> t)
            (upd_assoc k (\<lambda>x. Entry (Inr t) d) (node_entries n)) n
      | None \<Rightarrow> node_set_entries t (node_entries n @ [(k, Entry (Inr t) d)]) n)"

definition write_file :: "fsys \<Rightarrow> vpath \<Rightarrow> payload \<Rightarrow> fsys" where
  "write_file f v d =
     f\<lparr>dirs := (dirs f)(fst (fst v) :=
          upd_assoc (snd (fst v)) (put_entry (clock f) (snd v) d) (dirs f (fst (fst v))))\<rparr>"

text \<open>
  \<open>Path.mkdir()\<close>: \<open>FileExistsError\<close> when the path exists (whatever it is),
  a new empty directory otherwise.
\<close>

definition mkdir :: "fsys \<Rightarrow> dpath \<Rightarrow> exn + fsys" where
  "mkdir f p =
     (case lookup_node f p of
        Some n \<Rightarrow> Inl FileExistsError
      | None \<Rightarrow> Inr (f\<lparr>dirs := (dirs f)(fst p := dirs f (fst p) @ [(snd p, Dir (clock f) [])])\<rparr>))"

section \<open>Output, effects and results\<close>

text \<open>
  What the program prints with \<open>click.echo\<close>, one constructor per message, and the
  effects on its surroundings that the properties speak about: \<open>ZipOpened v\<close> is
  the call \<open>zipfile.ZipFile\<close> on the volume \<open>v\<close> (recorded when the call is made,
  whatever comes of it), \<open>ConfigWritten\<close> the writing of a config record,
  \<open>FetcherInvoked\<close> the call of the external tool. The trace lists them, oldest
  first.
\<close>

record request =
  destination :: string
  title_name :: string
  req_url :: json
  req_args :: "string list"
  stdin_line :: "string option"

datatype event =
    EchoConfigException exn
  | EchoZipException exn
  | EchoSymlink dpath
  | EchoNoUrl
  | EchoDownloadException exn
  | EchoFolder dpath
  | EchoEmptyFolder
  | EchoUrl json "vpath option" bool
  | EchoTimeSpent
  | EchoDownloadedComics nat nat
  | EchoDownloadedByComic int nat nat
  | EchoDownloadedTotal "vpath set"
  | EchoSkipped json
  | ZipOpened vpath
  | ConfigWritten dpath json
  | FetcherInvoked request

record world =
  fs :: fsys
  trace :: "event list"

definition emit :: "event \<Rightarrow> world \<Rightarrow> world" where
  "emit e w = w\<lparr>trace := trace w @ [e]\<rparr>"

text \<open>
  A call either returns a value or raises; both leave a world behind. An exception
  nobody catches ends at \<open>logger.catch\<close> around \<open>update_comics\<close>.
\<close>

datatype 'a result = Raise exn world | Return 'a world

primrec world_of :: "'a result \<Rightarrow> world" where
  "world_of (Raise e w) = w"
| "world_of (Return x w) = w"

text \<open>
  The external tool \<open>manga-py\<close>, called through \<open>sh\<close>: it does what it wants to
  the file system, and the call returns (\<open>None\<close>) or raises.
\<close>

type_synonym fetcher = "request \<Rightarrow> fsys \<Rightarrow> exn option \<times> fsys"

section \<open>get_last_file\<close>

text \<open>
  \<open>sorted(paths, key=lambda f: f.stat().st_mtime)[-1]\<close>, or \<open>""\<close> (here \<open>None\<close>)
  for no paths. \<open>sorted\<close> computes every key first and is stable, so among the
  files with the greatest time the one the iteration yields last is returned. The
  paths are a Python set; \<open>order\<close> is the order in which the set yields its
  elements when \<open>sorted\<close> iterates over it.
\<close>

fun keys_of :: "('a \<Rightarrow> exn + mtime) \<Rightarrow> 'a list \<Rightarrow> exn + (mtime \<times> 'a) list" where
  "keys_of k [] = Inr []"
| "keys_of k (x # xs) =
     (case k x of
        Inl e \<Rightarrow> Inl e
      | Inr t \<Rightarrow> (case keys_of k xs of Inl e \<Rightarrow> Inl e | Inr r \<Rightarrow> Inr ((t, x) # r)))"

definition get_last_file ::
  "(vpath set \<Rightarrow> vpath list) \<Rightarrow> fsys \<Rightarrow> vpath set \<Rightarrow> exn + vpath option" where
  "get_last_file order f paths =
     (if paths \<noteq> {}
      then (case keys_of (stat_volume f) (order paths) of
              Inl e \<Rightarrow> Inl e
            | Inr kps \<Rightarrow> Inr (Some (snd (last (sort_key fst kps)))))
      else Inr None)"

section \<open>Comic\<close>

record comic =
  path :: dpath
  initial_volumes :: "vpath set"
  last_file :: "vpath option"
  url :: json
  url_from_cbz :: bool
  downloaded_volumes :: "vpath set"

definition config_file :: "dpath \<Rightarrow> vpath" where
  "config_file p = (p, SINGLE_COMIC_CONFIG_FILE_NAME)"

definition get_actual_comic_volumes :: "dpath \<Rightarrow> world \<Rightarrow> (vpath set) result" where
  "get_actual_comic_volumes p w =
     (if is_dir (fs w) p then Return (set (glob_cbz (fs w) p)) w
      else if is_symlink (fs w) p then Return {} (emit (EchoSymlink p) w)
      else (case mkdir (fs w) p of
              Inl e \<Rightarrow> Raise e w
            | Inr f \<Rightarrow> Return {} (w\<lparr>fs := f\<rparr>)))"

text \<open>\<open>except (KeyError, json.decoder.JSONDecodeError)\<close>: what the clause catches.\<close>

fun config_caught :: "exn \<Rightarrow> bool" where
  "config_caught (KeyError k) = True"
| "config_caught JSONDecodeError = True"
| "config_caught TypeError = False"
| "config_caught UnicodeDecodeError = False"
| "config_caught BadZipFile = False"
| "config_caught FileNotFoundError = False"
| "config_caught FileExistsError = False"
| "config_caught NotADirectoryError = False"
| "config_caught (OtherException x) = False"
| "config_caught KeyboardInterrupt = False"

text \<open>
  What is raised inside the \<open>try\<close> of \<open>_get_url_from_config\<close>: reported when the
  clause catches it, leaving the method otherwise.
\<close>

definition config_except :: "exn \<Rightarrow> comic \<Rightarrow> world \<Rightarrow> comic result" where
  "config_except e c w =
     (if config_caught e then Return c (emit (EchoConfigException e) w) else Raise e w)"

text \<open>
  \<open>_get_url_from_config\<close>: when the config file exists, it is opened and read with
  \<open>json.load\<close>, and \<open>comic_config['url']\<close> becomes the url.
\<close>

definition get_url_from_config :: "comic \<Rightarrow> world \<Rightarrow> comic result" where
  "get_url_from_config c w =
     (case lookup_file (fs w) (config_file (path c)) of
        None \<Rightarrow> Return c w
      | Some x \<Rightarrow>
          (case as_json (e_data x) of
             Inl e \<Rightarrow> config_except e c w
           | Inr comic_config \<Rightarrow>
               (case subscript comic_config ''url'' of
                  Inl e \<Rightarrow> config_except e c w
                | Inr v \<Rightarrow> Return (c\<lparr>url := v\<rparr>) w)))"

text \<open>
  \<open>zipfile.ZipFile(str(self.last_file))\<close>: the members of the archive, or what the
  constructor raises (\<open>str\<close> of \<open>""\<close>, the last file of no volumes, names no file).
\<close>

definition zip_open :: "fsys \<Rightarrow> vpath option \<Rightarrow> exn + archive" where
  "zip_open f lf =
     (case lf of
        None \<Rightarrow> Inl FileNotFoundError
      | Some v \<Rightarrow>
          (case lookup_file f v of
             None \<Rightarrow> Inl FileNotFoundError
           | Some x \<Rightarrow> as_zip (e_data x)))"

text \<open>
  \<open>zip_file.open('info.txt')\<close> and \<open>read().decode()\<close>: \<open>KeyError\<close> when no
  member has the name, and the last member of that name otherwise, as \<open>zipfile\<close>
  keeps one entry per name.
\<close>

definition read_member :: "archive \<Rightarrow> string \<Rightarrow> exn + string" where
  "read_member ms name =
     (case map_of (rev ms) name of None \<Rightarrow> Inl (KeyError name) | Some content \<Rightarrow> content)"

text \<open>
  What is raised inside the \<open>try\<close> of \<open>_get_url_from_cbz\<close>: \<open>except KeyError\<close>
  reports it, anything else leaves the method.
\<close>

fun cbz_except :: "exn \<Rightarrow> comic \<Rightarrow> world \<Rightarrow> comic result" where
  "cbz_except (KeyError k) c w = Return c (emit (EchoZipException (KeyError k)) w)"
| "cbz_except TypeError c w = Raise TypeError w"
| "cbz_except JSONDecodeError c w = Raise JSONDecodeError w"
| "cbz_except UnicodeDecodeError c w = Raise UnicodeDecodeError w"
| "cbz_except BadZipFile c w = Raise BadZipFile w"
| "cbz_except FileNotFoundError c w = Raise FileNotFoundError w"
| "cbz_except FileExistsError c w = Raise FileExistsError w"
| "cbz_except NotADirectoryError c w = Raise NotADirectoryError w"
| "cbz_except (OtherException x) c w = Raise (OtherException x) w"
| "cbz_except KeyboardInterrupt c w = Raise KeyboardInterrupt w"

text \<open>
  \<open>_get_url_from_cbz\<close>: the archive is opened, the member \<open>info.txt\<close> read and
  decoded, and the first match of the pattern becomes the url; a text without a match
  changes nothing and prints nothing.
\<close>

definition get_url_from_cbz :: "comic \<Rightarrow> world \<Rightarrow> comic result" where
  "get_url_from_cbz c w =
     (let w1 = (case last_file c of None \<Rightarrow> w | Some v \<Rightarrow> emit (ZipOpened v) w) in
      case zip_open (fs w) (last_file c) of
        Inl e \<Rightarrow> cbz_except e c w1
      | Inr ms \<Rightarrow>
          (case read_member ms ''info.txt'' of
             Inl e \<Rightarrow> cbz_except e c w1
           | Inr zip_file_info_content \<Rightarrow>
               (case search_site zip_file_info_content of
                  Some site \<Rightarrow> Return (c\<lparr>url := JStr site, url_from_cbz := True\<rparr>) w1
                | None \<Rightarrow> Return c w1)))"

text \<open>
  \<open>self.config_file.open("w")\<close> and
  \<open>json.dump({'url': self.url}, f, sort_keys=True, indent=4)\<close>: the file then holds
  the text of the one-key record. Opening fails when the folder is not there.
\<close>

definition save_config :: "comic \<Rightarrow> world \<Rightarrow> unit result" where
  "save_config c w =
     (if is_dir (fs w) (path c)
      then Return ()
             (emit (ConfigWritten (path c) (JObj [(''url'', url c)]))
                (w\<lparr>fs := write_file (fs w) (config_file (path c))
                              (json_text (JObj [(''url'', url c)]))\<rparr>))
      else (case lookup_node (fs w) (path c) of
              None \<Rightarrow> Raise FileNotFoundError w
            | Some n \<Rightarrow> Raise NotADirectoryError w))"

definition get_url :: "comic \<Rightarrow> world \<Rightarrow> comic result" where
  "get_url c w =
     (case get_url_from_config c w of
        Raise e w1 \<Rightarrow> Raise e w1
      | Return c1 w1 \<Rightarrow>
          (if \<not> truthy (url c1) \<and> initial_volumes c1 \<noteq> {}
           then (case get_url_from_cbz c1 w1 of
                   Raise e w2 \<Rightarrow> Raise e w2
                 | Return c2 w2 \<Rightarrow>
                     (if truthy (url c2)
                      then (case save_config c2 w2 of
                              Raise e w3 \<Rightarrow> Raise e w3
                            | Return u w3 \<Rightarrow> Return c2 w3)
                      else Return c2 w2))
           else Return c1 w1))"

text \<open>\<open>Comic.__init__\<close>.\<close>

definition comic_init :: "(vpath set \<Rightarrow> vpath list) \<Rightarrow> dpath \<Rightarrow> world \<Rightarrow> comic result" where
  "comic_init order p w =
     (case get_actual_comic_volumes p w of
        Raise e w1 \<Rightarrow> Raise e w1
      | Return vols w1 \<Rightarrow>
          (case get_last_file order (fs w1) vols of
             Inl e \<Rightarrow> Raise e w1
           | Inr lf \<Rightarrow>
               get_url
                 \<lparr>path = p, initial_volumes = vols, last_file = lf, url = JNull,
                  url_from_cbz = False, downloaded_volumes = {}\<rparr> w1))"

text \<open>
  The arguments of the call \<open>sh.manga_py(...)\<close>: destination is the parent of the
  title folder, the name is its base name, and the language code goes to the tool's
  standard input for a \<open>mangadex\<close> address.
\<close>

definition manga_py_request :: "comic \<Rightarrow> bool \<Rightarrow> request" where
  "manga_py_request c is_mangadex =
     \<lparr>destination = fst (path c), title_name = snd (path c), req_url = url c,
      req_args = PREFERRED_ARGS,
      stdin_line = (if is_mangadex then Some PREFERRED_LANG else None)\<rparr>"

text \<open>
  \<open>_download_comic\<close>. A false \<open>url\<close> is reported and the method goes on;
  \<open>'mangadex' in self.url\<close> stands before the \<open>try\<close>, so what it raises leaves
  the method. What the call of the tool raises is caught by \<open>except Exception\<close>
  and reported; an exception that is no \<open>Exception\<close> leaves the method.
\<close>

definition download_comic :: "fetcher \<Rightarrow> comic \<Rightarrow> world \<Rightarrow> unit result" where
  "download_comic fetch c w =
     (let w1 = (if \<not> truthy (url c) then emit EchoNoUrl w else w) in
      case py_in ''mangadex'' (url c) of
        Inl e \<Rightarrow> Raise e w1
      | Inr is_mangadex \<Rightarrow>
          (let rq = manga_py_request c is_mangadex;
               w2 = emit (FetcherInvoked rq) w1
           in case fetch rq (fs w2) of
                (None, f) \<Rightarrow> Return () (w2\<lparr>fs := f\<rparr>)
              | (Some e, f) \<Rightarrow>
                  (if is_Exception e
                   then Return () (emit (EchoDownloadException e) (w2\<lparr>fs := f\<rparr>))
                   else Raise e (w2\<lparr>fs := f\<rparr>))))"

text \<open>\<open>Comic.update\<close>; the clock readings and the sleep of zero seconds are left out.\<close>

definition comic_update :: "fetcher \<Rightarrow> comic \<Rightarrow> world \<Rightarrow> comic result" where
  "comic_update fetch c w =
     (let w1 = emit (EchoFolder (path c)) w in
      if initial_volumes c = {} then Return c (emit EchoEmptyFolder w1)
      else
        (let w2 = emit (EchoUrl (url c) (last_file c) (url_from_cbz c)) w1 in
         case download_comic fetch c w2 of
           Raise e w3 \<Rightarrow> Raise e w3
         | Return u w3 \<Rightarrow>
             (case get_actual_comic_volumes (path c) w3 of
                Raise e w4 \<Rightarrow> Raise e w4
              | Return vols w4 \<Rightarrow>
                  Return (c\<lparr>downloaded_volumes := vols - initial_volumes c\<rparr>)
                    (emit EchoTimeSpent w4))))"

section \<open>Library\<close>

record library =
  base_dirs :: "string list"
  comics :: "comic list"
  lib_downloaded_volumes :: "vpath set"

text \<open>
  \<open>sorted(list(base_dir.glob("*")), key=lambda x: x.stat().st_mtime, reverse=True)\<close>:
  every key is computed first (a dangling link raises), and \<open>reverse=True\<close>
  reverses the list, sorts it stably and reverses the result.
\<close>

definition sorted_children :: "fsys \<Rightarrow> string \<Rightarrow> exn + dpath list" where
  "sorted_children f b =
     (case keys_of (\<lambda>kn. node_stat (snd kn)) (dirs f b) of
        Inl e \<Rightarrow> Inl e
      | Inr kps \<Rightarrow> Inr (map (\<lambda>kp. (b, fst (snd kp))) (rev (sort_key fst (rev kps)))))"

fun construct_comics ::
  "(vpath set \<Rightarrow> vpath list) \<Rightarrow> dpath list \<Rightarrow> comic list \<Rightarrow> world \<Rightarrow> (comic list) result" where
  "construct_comics order [] cs w = Return cs w"
| "construct_comics order (p # ps) cs w =
     (case comic_init order p w of
        Raise e w1 \<Rightarrow> Raise e w1
      | Return c w1 \<Rightarrow> construct_comics order ps (cs @ [c]) w1)"

fun library_init_loop ::
  "(vpath set \<Rightarrow> vpath list) \<Rightarrow> string list \<Rightarrow> comic list \<Rightarrow> world \<Rightarrow> (comic list) result" where
  "library_init_loop order [] cs w = Return cs w"
| "library_init_loop order (b # bs) cs w =
     (case sorted_children (fs w) b of
        Inl e \<Rightarrow> Raise e w
      | Inr ps \<Rightarrow>
          (case construct_comics order ps cs w of
             Raise e w1 \<Rightarrow> Raise e w1
           | Return cs1 w1 \<Rightarrow> library_init_loop order bs cs1 w1))"

text \<open>\<open>Library.__init__\<close>; the base directories are taken as already expanded and resolved.\<close>

definition library_init ::
  "(vpath set \<Rightarrow> vpath list) \<Rightarrow> string list \<Rightarrow> world \<Rightarrow> library result" where
  "library_init order bds w =
     (case library_init_loop order bds [] w of
        Raise e w1 \<Rightarrow> Raise e w1
      | Return cs w1 \<Rightarrow>
          Return \<lparr>base_dirs = bds, comics = cs, lib_downloaded_volumes = {}\<rparr> w1)"

text \<open>\<open>any(word in url for word in SKIPPED)\<close>: the generator stops at the first true test.\<close>

fun any_in :: "string list \<Rightarrow> json \<Rightarrow> exn + bool" where
  "any_in [] u = Inr False"
| "any_in (word # ws) u =
     (case py_in word u of
        Inl e \<Rightarrow> Inl e
      | Inr True \<Rightarrow> Inr True
      | Inr False \<Rightarrow> any_in ws u)"

definition needs_skip :: "json \<Rightarrow> world \<Rightarrow> bool result" where
  "needs_skip u w =
     (case any_in SKIPPED u of
        Inl e \<Rightarrow> Raise e w
      | Inr skip \<Rightarrow> Return skip (if skip then emit (EchoSkipped u) w else w))"

text \<open>
  The loop of \<open>Library.update\<close> over \<open>enumerate(self.comics, start=1)\<close>: \<open>num\<close>
  is the running number, \<open>seen\<close> the comics already passed (as the loop left them),
  \<open>tot\<close> is \<open>self.downloaded_volumes\<close>.
\<close>

fun update_loop ::
  "fetcher \<Rightarrow> nat \<Rightarrow> nat \<Rightarrow> comic list \<Rightarrow> comic list \<Rightarrow> vpath set \<Rightarrow> world
     \<Rightarrow> (comic list \<times> vpath set) result" where
  "update_loop fetch max_num num [] seen tot w = Return (seen, tot) w"
| "update_loop fetch max_num num (c # cs) seen tot w =
     (let w1 = emit (EchoDownloadedComics num max_num) w in
      case needs_skip (url c) w1 of
        Raise e w2 \<Rightarrow> Raise e w2
      | Return True w2 \<Rightarrow> update_loop fetch max_num (Suc num) cs (seen @ [c]) tot w2
      | Return False w2 \<Rightarrow>
          (case comic_update fetch c w2 of
             Raise e w3 \<Rightarrow> Raise e w3
           | Return c1 w3 \<Rightarrow>
               (let tot1 = tot \<union> downloaded_volumes c1;
                    w4 = emit (EchoDownloadedByComic
                                 (int (card tot1) - int (card (downloaded_volumes c1)))
                                 (card (downloaded_volumes c1)) (card tot1)) w3
                in update_loop fetch max_num (Suc num) cs (seen @ [c1]) tot1 w4)))"

definition library_update :: "fetcher \<Rightarrow> library \<Rightarrow> world \<Rightarrow> library result" where
  "library_update fetch l w =
     (case update_loop fetch (length (comics l)) 1 (comics l) [] (lib_downloaded_volumes l) w of
        Raise e w1 \<Rightarrow> Raise e w1
      | Return r w1 \<Rightarrow>
          Return (l\<lparr>comics := fst r, lib_downloaded_volumes := snd r\<rparr>)
            (emit (EchoDownloadedTotal (snd r)) w1))"

text \<open>\<open>update_comics(path)\<close>, the command: one library of one base directory.\<close>

definition update_comics ::
  "(vpath set \<Rightarrow> vpath list) \<Rightarrow> fetcher \<Rightarrow> string \<Rightarrow> world \<Rightarrow> library result" where
  "update_comics order fetch p w =
     (case library_init order [p] w of
        Raise e w1 \<Rightarrow> Raise e w1
      | Return l w1 \<Rightarrow> library_update fetch l w1)"

section \<open>Example inputs\<close>

text \<open>Two title folders touched at the same time, listed as \<open>b\<close>, \<open>a\<close>.\<close>

definition tie_fs :: fsys where
  "tie_fs =
     \<lparr>dirs = (\<lambda>b. if b = ''lib'' then [(''b'', Dir 5 []), (''a'', Dir 5 [])] else []),
      clock = 0\<rparr>"

text \<open>Three title folders, the middle one touched last.\<close>

definition three_fs :: fsys where
  "three_fs =
     \<lparr>dirs = (\<lambda>b. if b = ''lib''
                    then [(''x'', Dir 1 []), (''y'', Dir 7 []), (''z'', Dir 1 [])] else []),
      clock = 0\<rparr>"

text \<open>
  A library \<open>lib\<close> with the one title folder \<open>t\<close> holding the given entries, and
  the comic as \<open>__init__\<close> has it just before \<open>_get_url\<close>. \<open>only_v1\<close> iterates
  over a set of one volume. \<open>zip_archive ms\<close> is the content of an archive with the
  members \<open>ms\<close> (no text for \<open>json.load\<close>), \<open>no_archive\<close> that of a file
  that is neither an archive nor text.
\<close>

definition zip_archive :: "archive \<Rightarrow> payload" where
  "zip_archive ms = Payload (Inl UnicodeDecodeError) (Inr ms)"

definition no_archive :: payload where
  "no_archive = Payload (Inl UnicodeDecodeError) (Inl BadZipFile)"

definition title_fs :: "(string \<times> dirent) list \<Rightarrow> fsys" where
  "title_fs es = \<lparr>dirs = (\<lambda>b. if b = ''lib'' then [(''t'', Dir 10 es)] else []), clock = 20\<rparr>"

definition fresh_comic :: "dpath \<Rightarrow> vpath set \<Rightarrow> vpath option \<Rightarrow> comic" where
  "fresh_comic p vols lf =
     \<lparr>path = p, initial_volumes = vols, last_file = lf, url = JNull, url_from_cbz = False,
      downloaded_volumes = {}\<rparr>"

definition only_v1 :: "vpath set \<Rightarrow> vpath list" where
  "only_v1 S = [((''lib'', ''t''), ''v1.cbz'')]"

text \<open>A tool that does nothing and returns.\<close>

definition idle_fetcher :: fetcher where
  "idle_fetcher rq f = (None, f)"

text \<open>
  A title folder with a newer and an older volume (after the given entries), and an
  iteration that yields the newer volume first.
\<close>

definition new_first :: "vpath set \<Rightarrow> vpath list" where
  "new_first S = [((''lib'', ''t''), ''new.cbz''), ((''lib'', ''t''), ''old.cbz'')]"

definition new_old_fs :: "(string \<times> dirent) list \<Rightarrow> fsys" where
  "new_old_fs cfg =
     title_fs (cfg @
       [(''new.cbz'', Entry (Inr 9) (zip_archive
           [(''info.txt'', Inr ''Title: x\<newline>Site: http://new\<newline>Pages: 3'')])),
        (''old.cbz'', Entry (Inr 2) (zip_archive [(''info.txt'', Inr ''Site: http://old'')]))])"

section \<open>Properties\<close>

subsection \<open>Discovery order\<close>

lemma keys_of_Inr:
  "keys_of k xs = Inr r \<Longrightarrow> map snd r = xs \<and> (\<forall>kp \<in> set r. k (snd kp) = Inr (fst kp))"
  by (induction xs arbitrary: r) (auto split: sum.splits)

text \<open>
  C6, as the code has it. The children of a base directory come out by modification
  time, latest first, and children with equal times keep the order of the directory
  listing: \<open>kps\<close> is the listing with each child's time, \<open>L\<close> the order produced,
  which is a rearrangement of \<open>kps\<close>, has descending times, and restricted to any
  one time \<open>t\<close> is the listing restricted to \<open>t\<close>. No name is compared.
\<close>

theorem sorted_children_stable_descending:
  assumes "sorted_children f b = Inr ps"
  shows "\<exists>kps. map snd kps = dirs f b
            \<and> (\<forall>kp \<in> set kps. node_stat (snd (snd kp)) = Inr (fst kp))
            \<and> (\<exists>L. ps = map (\<lambda>kp. (b, fst (snd kp))) L
                 \<and> mset L = mset kps
                 \<and> sorted (rev (map fst L))
                 \<and> (\<forall>t. filter (\<lambda>kp. fst kp = t) L = filter (\<lambda>kp. fst kp = t) kps))"
proof -
  from assms obtain kps where k: "keys_of (\<lambda>kn. node_stat (snd kn)) (dirs f b) = Inr kps"
    and ps: "ps = map (\<lambda>kp. (b, fst (snd kp))) (rev (sort_key fst (rev kps)))"
    by (auto simp: sorted_children_def split: sum.splits)
  let ?L = "rev (sort_key fst (rev kps))"
  have a: "mset ?L = mset kps" by simp
  have b: "sorted (rev (map fst ?L))" by (simp add: rev_map)
  have c: "\<forall>t. filter (\<lambda>kp. fst kp = t) ?L = filter (\<lambda>kp. fst kp = t) kps"
    by (simp add: rev_filter[symmetric] sort_key_stable)
  from keys_of_Inr[OF k] ps a b c show ?thesis by blast
qed

theorem sorted_children_stable_descending_witness:
  "sorted_children three_fs ''lib'' = Inr [(''lib'', ''y''), (''lib'', ''x''), (''lib'', ''z'')]
   \<and> (\<exists>kps. map snd kps = dirs three_fs ''lib''
            \<and> (\<forall>kp \<in> set kps. node_stat (snd (snd kp)) = Inr (fst kp))
            \<and> (\<exists>L. [(''lib'', ''y''), (''lib'', ''x''), (''lib'', ''z'')]
                      = map (\<lambda>kp. (''lib'', fst (snd kp))) L
                 \<and> mset L = mset kps
                 \<and> sorted (rev (map fst L))
                 \<and> (\<forall>t. filter (\<lambda>kp. fst kp = t) L = filter (\<lambda>kp. fst kp = t) kps)))"
proof -
  have e: "sorted_children three_fs ''lib'' = Inr [(''lib'', ''y''), (''lib'', ''x''), (''lib'', ''z'')]"
    by (simp add: sorted_children_def three_fs_def)
  from e sorted_children_stable_descending [OF e] show ?thesis by blast
qed

text \<open>
  C6 as stated fails: \<open>a\<close> and \<open>b\<close> have the same time and \<open>a\<close> is the smaller
  name, yet \<open>b\<close> comes first, as the directory listing had it.
\<close>

theorem sorted_children_name_tie_counterexample:
  "sorted_children tie_fs ''lib'' = Inr [(''lib'', ''b''), (''lib'', ''a'')]
   \<and> lookup_node tie_fs (''lib'', ''a'') = Some (Dir 5 [])
   \<and> lookup_node tie_fs (''lib'', ''b'') = Some (Dir 5 [])
   \<and> (''a'' :: string) < ''b''"
  by (simp add: sorted_children_def tie_fs_def lookup_node_def)

subsection \<open>Strings and the file system\<close>


lemma str_contains_startswith: "startswith s sub \<Longrightarrow> str_contains sub s"
  by (cases s) (auto simp: startswith_def)


lemma search_site_None_iff: "search_site s = None \<longleftrightarrow> \<not> str_contains ''Site: '' s"
  by (induction s) auto



lemma map_of_upd_assoc:
  "map_of (upd_assoc k g l) k' = (if k' = k then map_option g (map_of l k) else map_of l k')"
  by (induction l) auto


lemma lookup_node_write_file:
  "lookup_node (write_file f (p, k) d) q =
     (if q = p then map_option (put_entry (clock f) k d) (lookup_node f p) else lookup_node f q)"
  by (cases p; cases q) (auto simp: lookup_node_def write_file_def map_of_upd_assoc)

lemma node_is_dir_put_entry [simp]: "node_is_dir (put_entry t k d n) = node_is_dir n"
  by (cases n) (auto simp: put_entry_def split: option.splits)

lemma map_of_snoc:
  "map_of es k = None \<Longrightarrow> map_of (es @ [(k, v)]) k' = (if k' = k then Some v else map_of es k')"
  by (induction es) auto

lemma map_of_entries_put_entry:
  "map_of (node_entries (put_entry t k d n)) k' =
     (if node_is_dir n \<and> k' = k then Some (Entry (Inr t) d) else map_of (node_entries n) k')"
  by (cases n)
    (auto simp: put_entry_def map_of_upd_assoc map_add_def split: option.splits)


lemma is_dir_write_file [simp]: "is_dir (write_file f (p, k) d) q = is_dir f q"
  by (auto simp: is_dir_def lookup_node_write_file split: option.splits)

lemma lookup_file_write_file:
  "lookup_file (write_file f (p, k) d) (q, k') =
     (if is_dir f p \<and> q = p \<and> k' = k then Some (Entry (Inr (clock f)) d) else lookup_file f (q, k'))"
  by (auto simp: lookup_file_def entries_def is_dir_def lookup_node_write_file
      map_of_entries_put_entry split: option.splits)




lemmas fs_eval = lookup_file_def entries_def lookup_node_def is_dir_def is_symlink_def
  glob_cbz_def stat_volume_def endswith_def startswith_def config_file_def
  SINGLE_COMIC_CONFIG_FILE_NAME_def

lemmas comic_eval = comic_init_def get_actual_comic_volumes_def get_last_file_def get_url_def
  get_url_from_config_def get_url_from_cbz_def zip_open_def save_config_def write_file_def
  put_entry_def emit_def read_member_def config_except_def json_text_def

subsection \<open>Resolving the source of a title\<close>

lemma fs_emit [simp]: "fs (emit e w) = fs w"
  by (simp add: emit_def)

lemma trace_emit [simp]: "trace (emit e w) = trace w @ [e]"
  by (simp add: emit_def)

lemma get_url_from_config_valid:
  assumes "lookup_file (fs w) (config_file (path c)) = Some x"
    and "as_json (e_data x) = Inr (JObj kvs)"
    and "map_of kvs ''url'' = Some U"
  shows "get_url_from_config c w = Return (c\<lparr>url := U\<rparr>) w"
  using assms by (simp add: get_url_from_config_def)


lemma get_url_config_wins:
  assumes "get_url_from_config c w = Return c1 w1" and "truthy (url c1)"
  shows "get_url c w = Return c1 w1"
  using assms by (simp add: get_url_def)

lemma lookup_file_is_dir: "lookup_file f (p, a) = Some x \<Longrightarrow> is_dir f p"
  by (cases "lookup_node f p"; cases "the (lookup_node f p)")
     (auto simp: lookup_file_def entries_def is_dir_def)

lemma save_config_ok:
  assumes "is_dir (fs w) (path c)"
  shows "save_config c w =
           Return ()
             (emit (ConfigWritten (path c) (JObj [(''url'', url c)]))
                (w\<lparr>fs := write_file (fs w) (config_file (path c))
                              (json_text (JObj [(''url'', url c)]))\<rparr>))"
  using assms by (simp add: save_config_def)

lemma get_url_from_cbz_found:
  assumes "last_file c = Some v" and "lookup_file (fs w) v = Some y"
    and "as_zip (e_data y) = Inr ms" and "read_member ms ''info.txt'' = Inr s"
    and "search_site s = Some U"
  shows "get_url_from_cbz c w = Return (c\<lparr>url := JStr U, url_from_cbz := True\<rparr>) (emit (ZipOpened v) w)"
  using assms by (simp add: get_url_from_cbz_def zip_open_def)

lemma get_url_from_cbz_no_member:
  assumes "last_file c = Some v" and "lookup_file (fs w) v = Some y"
    and "as_zip (e_data y) = Inr ms" and "map_of (rev ms) ''info.txt'' = None"
  shows "get_url_from_cbz c w =
           Return c (emit (EchoZipException (KeyError ''info.txt'')) (emit (ZipOpened v) w))"
  using assms by (simp add: get_url_from_cbz_def zip_open_def read_member_def)

lemma get_url_from_cbz_no_match:
  assumes "last_file c = Some v" and "lookup_file (fs w) v = Some y"
    and "as_zip (e_data y) = Inr ms" and "read_member ms ''info.txt'' = Inr s"
    and "search_site s = None"
  shows "get_url_from_cbz c w = Return c (emit (ZipOpened v) w)"
  using assms by (simp add: get_url_from_cbz_def zip_open_def)

text \<open>
  C1, as the code has it. A config record whose \<open>url\<close> value is true for Python
  (a non-empty string) is what \<open>_get_url\<close> returns: the comic has that value, keeps
  \<open>url_from_cbz\<close> as it was (\<open>False\<close> from \<open>__init__\<close>), and the world is
  unchanged, so no archive was opened and nothing was written, whatever the archives
  hold. And whenever the config step yields a true value, \<open>_get_url\<close> is that step
  alone.
\<close>

theorem config_url_wins:
  assumes "lookup_file (fs w) (config_file (path c)) = Some x"
    and "as_json (e_data x) = Inr (JObj kvs)"
    and "map_of kvs ''url'' = Some U"
    and "truthy U"
  shows "get_url c w = Return (c\<lparr>url := U\<rparr>) w
         \<and> (\<forall>c0 w0 c1 w1. get_url_from_config c0 w0 = Return c1 w1 \<and> truthy (url c1)
               \<longrightarrow> get_url c0 w0 = Return c1 w1)"
  using get_url_config_wins get_url_from_config_valid[OF assms(1-3)] assms(4) by simp

theorem config_url_wins_witness:
  "get_url (fresh_comic (''lib'', ''t'') {((''lib'', ''t''), ''v1.cbz'')} (Some ((''lib'', ''t''), ''v1.cbz'')))
     \<lparr>fs = title_fs [(''info.json'', Entry (Inr 1) (json_text (JObj [(''url'', JStr ''http://a'')]))),
                      (''v1.cbz'', Entry (Inr 2) (zip_archive [(''info.txt'', Inr ''Site: http://b'')]))],
      trace = []\<rparr>
   = Return ((fresh_comic (''lib'', ''t'') {((''lib'', ''t''), ''v1.cbz'')} (Some ((''lib'', ''t''), ''v1.cbz'')))
               \<lparr>url := JStr ''http://a''\<rparr>)
       \<lparr>fs = title_fs [(''info.json'', Entry (Inr 1) (json_text (JObj [(''url'', JStr ''http://a'')]))),
                        (''v1.cbz'', Entry (Inr 2) (zip_archive [(''info.txt'', Inr ''Site: http://b'')]))],
        trace = []\<rparr>"
  using config_url_wins[of
      "\<lparr>fs = title_fs [(''info.json'', Entry (Inr 1) (json_text (JObj [(''url'', JStr ''http://a'')]))),
                      (''v1.cbz'', Entry (Inr 2) (zip_archive [(''info.txt'', Inr ''Site: http://b'')]))],
        trace = []\<rparr>"
      "fresh_comic (''lib'', ''t'') {((''lib'', ''t''), ''v1.cbz'')} (Some ((''lib'', ''t''), ''v1.cbz''))"
      "Entry (Inr 1) (json_text (JObj [(''url'', JStr ''http://a'')]))"
      "[(''url'', JStr ''http://a'')]" "JStr ''http://a''"]
  by (simp add: fs_eval title_fs_def fresh_comic_def json_text_def)

text \<open>
  C1 as stated fails on the valid record \<open>{"url": ""}\<close>: the archive is opened, its
  \<open>Site:\<close> line is taken, and the record is written over.
\<close>

theorem config_empty_url_counterexample:
  "lookup_file (title_fs [(''info.json'', Entry (Inr 1) (json_text (JObj [(''url'', JStr '''')]))),
                          (''v1.cbz'', Entry (Inr 2) (zip_archive [(''info.txt'', Inr ''Site: http://b'')]))])
               (config_file (''lib'', ''t''))
     = Some (Entry (Inr 1) (json_text (JObj [(''url'', JStr '''')])))
   \<and> (case comic_init only_v1 (''lib'', ''t'')
             \<lparr>fs = title_fs [(''info.json'', Entry (Inr 1) (json_text (JObj [(''url'', JStr '''')]))),
                              (''v1.cbz'', Entry (Inr 2) (zip_archive [(''info.txt'', Inr ''Site: http://b'')]))],
              trace = []\<rparr> of
         Raise e w \<Rightarrow> False
       | Return c w \<Rightarrow>
           url c = JStr ''http://b'' \<and> url_from_cbz c
           \<and> trace w = [ZipOpened ((''lib'', ''t''), ''v1.cbz''),
                         ConfigWritten (''lib'', ''t'') (JObj [(''url'', JStr ''http://b'')])])"
  by (simp add: fs_eval comic_eval title_fs_def only_v1_def zip_archive_def)

subsection \<open>The most recent volume\<close>

lemma keys_of_total:
  "(\<forall>x \<in> set xs. \<exists>t. k x = Inr t) \<Longrightarrow> \<exists>r. keys_of k xs = Inr r"
  by (induction xs) (auto split: sum.splits)

lemma sorted_le_last: "sorted xs \<Longrightarrow> x \<in> set xs \<Longrightarrow> x \<le> last xs"
  by (induction xs) auto

lemma last_sort_key_max:
  assumes "xs \<noteq> []"
  shows "last (sort_key f xs) \<in> set xs \<and> (\<forall>x \<in> set xs. f x \<le> f (last (sort_key f xs)))"
proof -
  let ?ys = "sort_key f xs"
  have ne: "?ys \<noteq> []" using assms by (metis length_sort length_0_conv)
  have m: "last ?ys \<in> set xs" using ne by (metis last_in_set set_sort)
  have "\<forall>x \<in> set xs. f x \<le> f (last ?ys)"
  proof
    fix x assume "x \<in> set xs"
    then have "f x \<in> set (map f ?ys)" by simp
    then have "f x \<le> last (map f ?ys)" by (intro sorted_le_last) simp_all
    then show "f x \<le> f (last ?ys)" using ne by (simp add: last_map)
  qed
  with m show ?thesis by blast
qed

lemma get_last_file_latest:
  assumes ne: "S \<noteq> {}" and ord: "set (order S) = S" and v: "v \<in> S"
    and tv: "stat_volume f v = Inr tv"
    and older: "\<forall>u \<in> S. u \<noteq> v \<longrightarrow> (\<exists>tu. stat_volume f u = Inr tu \<and> tu < tv)"
  shows "get_last_file order f S = Inr (Some v)"
proof -
  have "\<forall>x \<in> set (order S). \<exists>t. stat_volume f x = Inr t"
    using ord tv older by metis
  then obtain kps where k: "keys_of (stat_volume f) (order S) = Inr kps"
    using keys_of_total by blast
  from keys_of_Inr[OF k] have ms: "map snd kps = order S"
    and ks: "\<forall>kp \<in> set kps. stat_volume f (snd kp) = Inr (fst kp)" by auto
  have kne: "kps \<noteq> []" using ms ord ne by auto
  let ?m = "last (sort_key fst kps)"
  from last_sort_key_max[OF kne, of fst] have m_in: "?m \<in> set kps"
    and m_max: "\<forall>kp \<in> set kps. fst kp \<le> fst ?m" by auto
  from v ord ms obtain kv where kv: "kv \<in> set kps" "snd kv = v"
    by (metis (no_types, lifting) imageE set_map)
  with ks tv have "fst kv = tv" by auto
  with m_max kv have ge: "tv \<le> fst ?m" by auto
  have "snd ?m = v"
  proof (rule ccontr)
    assume n: "snd ?m \<noteq> v"
    have "snd ?m \<in> S" using m_in ms ord by (metis image_eqI set_map)
    with older n obtain tu where "stat_volume f (snd ?m) = Inr tu" "tu < tv" by blast
    with ks m_in have "fst ?m < tv" by auto
    with ge show False by simp
  qed
  then show ?thesis using ne k by (simp add: get_last_file_def)
qed



subsection \<open>Inference and its persistence\<close>

lemma comic_init_reaches_get_url:
  assumes dir: "is_dir (fs w) p"
    and ord: "set (order (set (glob_cbz (fs w) p))) = set (glob_cbz (fs w) p)"
    and v: "(p, a) \<in> set (glob_cbz (fs w) p)"
    and tv: "stat_volume (fs w) (p, a) = Inr ta"
    and older: "\<forall>u \<in> set (glob_cbz (fs w) p). u \<noteq> (p, a)
                  \<longrightarrow> (\<exists>tu. stat_volume (fs w) u = Inr tu \<and> tu < ta)"
  shows "comic_init order p w =
           get_url \<lparr>path = p, initial_volumes = set (glob_cbz (fs w) p), last_file = Some (p, a),
                    url = JNull, url_from_cbz = False, downloaded_volumes = {}\<rparr> w"
proof -
  have ne: "set (glob_cbz (fs w) p) \<noteq> {}" using v by auto
  have "get_last_file order (fs w) (set (glob_cbz (fs w) p)) = Inr (Some (p, a))"
    using ne ord v tv older by (rule get_last_file_latest)
  then show ?thesis using dir by (simp add: comic_init_def get_actual_comic_volumes_def)
qed

lemma cbz_except_trace: "set (trace w) \<subseteq> set (trace (world_of (cbz_except e c w)))"
  by (cases e) auto

lemma zip_opened_in_cbz:
  assumes "last_file c = Some v"
  shows "ZipOpened v \<in> set (trace (world_of (get_url_from_cbz c w)))"
proof -
  have a: "ZipOpened v \<in> set (trace (emit (ZipOpened v) w))" by simp
  show ?thesis
    using assms a cbz_except_trace[of "emit (ZipOpened v) w" _ c]
    by (auto simp: get_url_from_cbz_def Let_def split: sum.splits option.splits)
qed

lemma save_config_trace: "set (trace w) \<subseteq> set (trace (world_of (save_config c w)))"
  by (auto simp: save_config_def split: option.splits)

lemma get_url_attempts_inference:
  assumes cfg: "get_url_from_config c w = Return c1 w" "\<not> truthy (url c1)"
      "initial_volumes c1 \<noteq> {}" "last_file c1 = Some v"
  shows "ZipOpened v \<in> set (trace (world_of (get_url c w)))"
proof (cases "get_url_from_cbz c1 w")
  case (Raise e w2)
  with zip_opened_in_cbz[OF cfg(4), of w] cfg show ?thesis by (simp add: get_url_def)
next
  case (Return c2 w2)
  with zip_opened_in_cbz[OF cfg(4), of w] have z: "ZipOpened v \<in> set (trace w2)" by simp
  show ?thesis
  proof (cases "truthy (url c2)")
    case False
    with Return z cfg show ?thesis by (simp add: get_url_def)
  next
    case True
    have "get_url c w = (case save_config c2 w2 of Raise e w3 \<Rightarrow> Raise e w3 | Return u w3 \<Rightarrow> Return c2 w3)"
      using True Return cfg by (simp add: get_url_def)
    then have "world_of (get_url c w) = world_of (save_config c2 w2)"
      by (cases "save_config c2 w2") simp_all
    with z save_config_trace[of w2 c2] show ?thesis by auto
  qed
qed

lemma get_url_infers:
  assumes cfg: "get_url_from_config c w = Return c1 w" "\<not> truthy (url c1)"
      "path c1 = p" "initial_volumes c1 \<noteq> {}" "last_file c1 = Some (p, a)"
    and arch: "lookup_file (fs w) (p, a) = Some y" "as_zip (e_data y) = Inr ms"
      "read_member ms ''info.txt'' = Inr s" "search_site s = Some U" "U \<noteq> []"
  shows "get_url c w =
           Return (c1\<lparr>url := JStr U, url_from_cbz := True\<rparr>)
             \<lparr>fs = write_file (fs w) (config_file p) (json_text (JObj [(''url'', JStr U)])),
              trace = trace w @ [ZipOpened (p, a), ConfigWritten p (JObj [(''url'', JStr U)])]\<rparr>"
proof -
  have d: "is_dir (fs w) p" using arch(1) by (rule lookup_file_is_dir)
  have g: "get_url_from_cbz c1 w
             = Return (c1\<lparr>url := JStr U, url_from_cbz := True\<rparr>) (emit (ZipOpened (p, a)) w)"
    using get_url_from_cbz_found[of c1 "(p, a)" w y ms s U] cfg arch by simp
  have s: "save_config (c1\<lparr>url := JStr U, url_from_cbz := True\<rparr>) (emit (ZipOpened (p, a)) w)
             = Return ()
                 \<lparr>fs = write_file (fs w) (config_file p) (json_text (JObj [(''url'', JStr U)])),
                  trace = trace w @ [ZipOpened (p, a), ConfigWritten p (JObj [(''url'', JStr U)])]\<rparr>"
    using d cfg(3) by (simp add: save_config_def emit_def)
  show ?thesis
    using cfg arch(5) by (simp add: get_url_def g s)
qed

lemma get_url_no_match:
  assumes cfg: "get_url_from_config c w = Return c1 w" "\<not> truthy (url c1)"
      "initial_volumes c1 \<noteq> {}" "last_file c1 = Some v"
    and arch: "lookup_file (fs w) v = Some y" "as_zip (e_data y) = Inr ms"
      "read_member ms ''info.txt'' = Inr s" "search_site s = None"
  shows "get_url c w = Return c1 (emit (ZipOpened v) w)"
  using cfg get_url_from_cbz_no_match[OF cfg(4) arch] by (simp add: get_url_def)

lemma comic_init_infers:
  assumes c0: "c0 = \<lparr>path = p, initial_volumes = set (glob_cbz (fs w) p), last_file = Some (p, a),
                      url = JNull, url_from_cbz = False, downloaded_volumes = {}\<rparr>"
    and blank: "get_url_from_config c0 w = Return (c0\<lparr>url := u0\<rparr>) w" "\<not> truthy u0"
    and ord: "set (order (set (glob_cbz (fs w) p))) = set (glob_cbz (fs w) p)"
    and vol: "(p, a) \<in> set (glob_cbz (fs w) p)" "lookup_file (fs w) (p, a) = Some y"
      "e_stat y = Inr ta"
    and recent: "\<forall>u \<in> set (glob_cbz (fs w) p). u \<noteq> (p, a)
                  \<longrightarrow> (\<exists>tu. stat_volume (fs w) u = Inr tu \<and> tu < ta)"
  shows "ZipOpened (p, a) \<in> set (trace (world_of (comic_init order p w)))"
    and "as_zip (e_data y) = Inr ms \<Longrightarrow> read_member ms ''info.txt'' = Inr s \<Longrightarrow>
         search_site s = Some U \<Longrightarrow> U \<noteq> [] \<Longrightarrow>
         comic_init order p w =
           Return (c0\<lparr>url := JStr U, url_from_cbz := True\<rparr>)
             \<lparr>fs = write_file (fs w) (config_file p) (json_text (JObj [(''url'', JStr U)])),
              trace = trace w @ [ZipOpened (p, a), ConfigWritten p (JObj [(''url'', JStr U)])]\<rparr>"
    and "as_zip (e_data y) = Inr ms \<Longrightarrow> read_member ms ''info.txt'' = Inr s \<Longrightarrow>
         search_site s = None \<Longrightarrow>
         comic_init order p w = Return (c0\<lparr>url := u0\<rparr>) (emit (ZipOpened (p, a)) w)"
proof -
  have d: "is_dir (fs w) p" using vol(2) by (rule lookup_file_is_dir)
  have tv: "stat_volume (fs w) (p, a) = Inr ta" using vol by (simp add: stat_volume_def)
  have r: "comic_init order p w = get_url c0 w"
    unfolding c0 using d ord vol(1) tv recent by (rule comic_init_reaches_get_url)
  have ne: "initial_volumes (c0\<lparr>url := u0\<rparr>) \<noteq> {}" using vol(1) by (auto simp: c0)
  have lf: "last_file (c0\<lparr>url := u0\<rparr>) = Some (p, a)" by (simp add: c0)
  have u: "\<not> truthy (url (c0\<lparr>url := u0\<rparr>))" using blank(2) by simp
  show "ZipOpened (p, a) \<in> set (trace (world_of (comic_init order p w)))"
    unfolding r using blank(1) u ne lf by (rule get_url_attempts_inference)
  {
    assume a: "as_zip (e_data y) = Inr ms" "read_member ms ''info.txt'' = Inr s"
      "search_site s = Some U" "U \<noteq> []"
    have "get_url c0 w =
           Return ((c0\<lparr>url := u0\<rparr>)\<lparr>url := JStr U, url_from_cbz := True\<rparr>)
             \<lparr>fs = write_file (fs w) (config_file p) (json_text (JObj [(''url'', JStr U)])),
              trace = trace w @ [ZipOpened (p, a), ConfigWritten p (JObj [(''url'', JStr U)])]\<rparr>"
      using blank(1) u _ ne lf vol(2) a by (rule get_url_infers) (simp add: c0)
    then show "comic_init order p w =
           Return (c0\<lparr>url := JStr U, url_from_cbz := True\<rparr>)
             \<lparr>fs = write_file (fs w) (config_file p) (json_text (JObj [(''url'', JStr U)])),
              trace = trace w @ [ZipOpened (p, a), ConfigWritten p (JObj [(''url'', JStr U)])]\<rparr>"
      by (simp add: r)
  }
  {
    assume a: "as_zip (e_data y) = Inr ms" "read_member ms ''info.txt'' = Inr s"
      "search_site s = None"
    show "comic_init order p w = Return (c0\<lparr>url := u0\<rparr>) (emit (ZipOpened (p, a)) w)"
      unfolding r using blank(1) u ne lf vol(2) a by (rule get_url_no_match)
  }
qed


lemmas example_eval = title_fs_def fresh_comic_def only_v1_def zip_archive_def no_archive_def
  new_first_def new_old_fs_def




text \<open>
  C10, as the code has it. The config record parses and holds \<open>url = ""\<close>; \<open>a\<close> is
  the volume whose time is greater than that of every other volume. Then
  \<open>zipfile.ZipFile\<close> is called on \<open>a\<close>, whatever the archive holds and whether
  \<open>__init__\<close> returns or raises. When the archive opens and its \<open>info.txt\<close> yields
  a non-empty address \<open>U\<close>, the comic has \<open>url = U\<close> with \<open>url_from_cbz\<close> set
  and the config file holds \<open>{url: U}\<close> in place of the old record, which is the
  result for a folder without a config record. When the text has no match, the comic
  keeps \<open>url = ""\<close> and nothing is written.
\<close>

theorem empty_config_url_falls_back:
  assumes cfg: "lookup_file (fs w) (config_file p) = Some x"
      "as_json (e_data x) = Inr (JObj kvs)" "map_of kvs ''url'' = Some (JStr [])"
    and ord: "set (order (set (glob_cbz (fs w) p))) = set (glob_cbz (fs w) p)"
    and vol: "(p, a) \<in> set (glob_cbz (fs w) p)" "lookup_file (fs w) (p, a) = Some y"
      "e_stat y = Inr ta"
    and recent: "\<forall>u \<in> set (glob_cbz (fs w) p). u \<noteq> (p, a)
                  \<longrightarrow> (\<exists>tu. stat_volume (fs w) u = Inr tu \<and> tu < ta)"
  shows "ZipOpened (p, a) \<in> set (trace (world_of (comic_init order p w)))
       \<and> (\<forall>ms s U. as_zip (e_data y) = Inr ms \<and> read_member ms ''info.txt'' = Inr s
                   \<and> search_site s = Some U \<and> U \<noteq> [] \<longrightarrow>
            comic_init order p w =
              Return \<lparr>path = p, initial_volumes = set (glob_cbz (fs w) p),
                      last_file = Some (p, a), url = JStr U, url_from_cbz = True,
                      downloaded_volumes = {}\<rparr>
                \<lparr>fs = write_file (fs w) (config_file p) (json_text (JObj [(''url'', JStr U)])),
                 trace = trace w @ [ZipOpened (p, a), ConfigWritten p (JObj [(''url'', JStr U)])]\<rparr>
            \<and> lookup_file (write_file (fs w) (config_file p) (json_text (JObj [(''url'', JStr U)])))
                 (config_file p)
                = Some (Entry (Inr (clock (fs w))) (json_text (JObj [(''url'', JStr U)]))))
       \<and> (\<forall>ms s. as_zip (e_data y) = Inr ms \<and> read_member ms ''info.txt'' = Inr s
                 \<and> search_site s = None \<longrightarrow>
            comic_init order p w =
              Return \<lparr>path = p, initial_volumes = set (glob_cbz (fs w) p),
                      last_file = Some (p, a), url = JStr [], url_from_cbz = False,
                      downloaded_volumes = {}\<rparr>
                (emit (ZipOpened (p, a)) w))"
proof -
  let ?c0 = "\<lparr>path = p, initial_volumes = set (glob_cbz (fs w) p), last_file = Some (p, a),
              url = JNull, url_from_cbz = False, downloaded_volumes = {}\<rparr>"
  have d: "is_dir (fs w) p" using vol(2) by (rule lookup_file_is_dir)
  have b: "get_url_from_config ?c0 w = Return (?c0\<lparr>url := JStr []\<rparr>) w"
    using get_url_from_config_valid[of w ?c0 x kvs "JStr []"] cfg by simp
  note i = comic_init_infers[where ?c0.0 = ?c0 and ?u0.0 = "JStr []" and order = order and w = w
      and p = p and a = a and y = y and ta = ta, OF refl b _ ord vol recent, simplified]
  have 3: "\<And>U. lookup_file (write_file (fs w) (config_file p) (json_text (JObj [(''url'', JStr U)])))
                 (config_file p)
                = Some (Entry (Inr (clock (fs w))) (json_text (JObj [(''url'', JStr U)])))"
    using d by (simp add: config_file_def lookup_file_write_file)
  show ?thesis using i(1) i(2) i(3) 3 by simp
qed

theorem empty_config_url_falls_back_witness:
  "ZipOpened ((''lib'', ''t''), ''new.cbz'')
     \<in> set (trace (world_of (comic_init new_first (''lib'', ''t'')
               \<lparr>fs = new_old_fs [(''info.json'', Entry (Inr 1) (json_text (JObj [(''url'', JStr '''')])))],
                trace = []\<rparr>)))
   \<and> comic_init new_first (''lib'', ''t'')
         \<lparr>fs = new_old_fs [(''info.json'', Entry (Inr 1) (json_text (JObj [(''url'', JStr '''')])))],
          trace = []\<rparr> =
       Return \<lparr>path = (''lib'', ''t''),
               initial_volumes = {((''lib'', ''t''), ''new.cbz''), ((''lib'', ''t''), ''old.cbz'')},
               last_file = Some ((''lib'', ''t''), ''new.cbz''), url = JStr ''http://new'',
               url_from_cbz = True, downloaded_volumes = {}\<rparr>
         \<lparr>fs = write_file
                 (new_old_fs [(''info.json'', Entry (Inr 1) (json_text (JObj [(''url'', JStr '''')])))])
                 (config_file (''lib'', ''t'')) (json_text (JObj [(''url'', JStr ''http://new'')])),
          trace = [ZipOpened ((''lib'', ''t''), ''new.cbz''),
                   ConfigWritten (''lib'', ''t'') (JObj [(''url'', JStr ''http://new'')])]\<rparr>
   \<and> lookup_file
         (write_file
            (new_old_fs [(''info.json'', Entry (Inr 1) (json_text (JObj [(''url'', JStr '''')])))])
            (config_file (''lib'', ''t'')) (json_text (JObj [(''url'', JStr ''http://new'')])))
         (config_file (''lib'', ''t''))
       = Some (Entry (Inr 20) (json_text (JObj [(''url'', JStr ''http://new'')])))"
proof -
  let ?w = "\<lparr>fs = new_old_fs [(''info.json'', Entry (Inr 1) (json_text (JObj [(''url'', JStr '''')])))],
             trace = []\<rparr>"
  let ?p = "(''lib'', ''t'')"
  let ?ms = "[(''info.txt'', Inr ''Title: x\<newline>Site: http://new\<newline>Pages: 3'')]"
  have p1: "lookup_file (fs ?w) (config_file ?p)
              = Some (Entry (Inr 1) (json_text (JObj [(''url'', JStr '''')])))"
    by (simp add: fs_eval example_eval)
  have p2: "as_json (e_data (Entry (Inr 1) (json_text (JObj [(''url'', JStr '''')]))))
              = Inr (JObj [(''url'', JStr '''')])"
    by (simp add: json_text_def)
  have p3: "map_of [(''url'', JStr '''')] ''url'' = Some (JStr [])" by simp
  have g: "glob_cbz (new_old_fs [(''info.json'', Entry (Inr 1) (json_text (JObj [(''url'', JStr [])])))]) ?p
             = [(?p, ''new.cbz''), (?p, ''old.cbz'')]"
    by (simp add: fs_eval example_eval)
  have p4: "set (new_first (set (glob_cbz (fs ?w) ?p))) = set (glob_cbz (fs ?w) ?p)"
    by (simp add: g new_first_def)
  have p5: "(?p, ''new.cbz'') \<in> set (glob_cbz (fs ?w) ?p)" by (simp add: g)
  have p6: "lookup_file (fs ?w) (?p, ''new.cbz'') = Some (Entry (Inr 9) (zip_archive ?ms))"
    by (simp add: fs_eval example_eval)
  have p7: "e_stat (Entry (Inr 9) (zip_archive ?ms)) = Inr 9" by simp
  have p8: "\<forall>u \<in> set (glob_cbz (fs ?w) ?p). u \<noteq> (?p, ''new.cbz'')
              \<longrightarrow> (\<exists>tu. stat_volume (fs ?w) u = Inr tu \<and> tu < 9)"
    by (simp add: g) (simp add: fs_eval example_eval)
  note t = empty_config_url_falls_back[where order = new_first, OF p1 p2 p3 p4 p5 p6 p7 p8]
  have q: "as_zip (e_data (Entry (Inr 9) (zip_archive ?ms))) = Inr ?ms
           \<and> read_member ?ms ''info.txt'' = Inr ''Title: x\<newline>Site: http://new\<newline>Pages: 3''
           \<and> search_site ''Title: x\<newline>Site: http://new\<newline>Pages: 3'' = Some ''http://new''
           \<and> ''http://new'' \<noteq> []"
    by (simp add: zip_archive_def read_member_def startswith_def)
  from t[THEN conjunct1] t[THEN conjunct2, THEN conjunct1, rule_format, OF q]
  show ?thesis by (simp add: g insert_commute) (simp add: new_old_fs_def title_fs_def)
qed

text \<open>
  C10 as stated fails in "exactly like an absent config": with an archive that has no
  \<open>Site:\<close> line, the empty record leaves \<open>url = ""\<close>, where no record leaves
  \<open>None\<close>.
\<close>

theorem empty_config_url_counterexample:
  "(case comic_init only_v1 (''lib'', ''t'')
           \<lparr>fs = title_fs [(''info.json'', Entry (Inr 1) (json_text (JObj [(''url'', JStr '''')]))),
                            (''v1.cbz'', Entry (Inr 2) (zip_archive [(''info.txt'', Inr ''Title: x'')]))],
            trace = []\<rparr> of
      Raise e w \<Rightarrow> False
    | Return c w \<Rightarrow> url c = JStr '''' \<and> trace w = [ZipOpened ((''lib'', ''t''), ''v1.cbz'')])
   \<and> (case comic_init only_v1 (''lib'', ''t'')
           \<lparr>fs = title_fs [(''v1.cbz'', Entry (Inr 2) (zip_archive [(''info.txt'', Inr ''Title: x'')]))],
            trace = []\<rparr> of
      Raise e w \<Rightarrow> False
    | Return c w \<Rightarrow> url c = JNull \<and> trace w = [ZipOpened ((''lib'', ''t''), ''v1.cbz'')])"
  by (simp add: fs_eval comic_eval example_eval)

subsection \<open>The archive inspector\<close>

text \<open>
  C3, as the code has it, for an archive that opens. When the archive has no member
  \<open>info.txt\<close>, \<open>_get_url_from_cbz\<close> returns with the comic unchanged and a
  diagnostic printed. When the member is there, is read and decodes to a text in
  which \<open>Site: \<close> does not occur, the method returns with the comic unchanged and
  prints nothing: the trace grows by the call on the archive alone.
\<close>

theorem inspector_absent_entry_or_no_match:
  assumes "last_file c = Some v" and "lookup_file (fs w) v = Some y"
    and "as_zip (e_data y) = Inr ms"
  shows "(map_of (rev ms) ''info.txt'' = None \<longrightarrow>
            get_url_from_cbz c w
              = Return c (w\<lparr>trace := trace w @ [ZipOpened v, EchoZipException (KeyError ''info.txt'')]\<rparr>))
       \<and> (\<forall>s. map_of (rev ms) ''info.txt'' = Some (Inr s) \<and> \<not> str_contains ''Site: '' s \<longrightarrow>
            get_url_from_cbz c w = Return c (w\<lparr>trace := trace w @ [ZipOpened v]\<rparr>))"
proof -
  have a: "map_of (rev ms) ''info.txt'' = None \<Longrightarrow>
            get_url_from_cbz c w
              = Return c (w\<lparr>trace := trace w @ [ZipOpened v, EchoZipException (KeyError ''info.txt'')]\<rparr>)"
    using get_url_from_cbz_no_member[OF assms] by (simp add: emit_def)
  have b: "\<And>s. map_of (rev ms) ''info.txt'' = Some (Inr s) \<Longrightarrow> \<not> str_contains ''Site: '' s \<Longrightarrow>
            get_url_from_cbz c w = Return c (w\<lparr>trace := trace w @ [ZipOpened v]\<rparr>)"
    using get_url_from_cbz_no_match[OF assms]
    by (simp add: emit_def read_member_def search_site_None_iff)
  from a b show ?thesis by blast
qed

theorem inspector_absent_entry_or_no_match_witness:
  "get_url_from_cbz (fresh_comic (''lib'', ''t'') {((''lib'', ''t''), ''v1.cbz'')}
                       (Some ((''lib'', ''t''), ''v1.cbz'')))
     \<lparr>fs = title_fs [(''v1.cbz'', Entry (Inr 2) (zip_archive [(''cover.jpg'', Inl UnicodeDecodeError)]))],
      trace = []\<rparr>
   = Return (fresh_comic (''lib'', ''t'') {((''lib'', ''t''), ''v1.cbz'')}
               (Some ((''lib'', ''t''), ''v1.cbz'')))
       \<lparr>fs = title_fs [(''v1.cbz'', Entry (Inr 2) (zip_archive [(''cover.jpg'', Inl UnicodeDecodeError)]))],
        trace = [ZipOpened ((''lib'', ''t''), ''v1.cbz''),
                 EchoZipException (KeyError ''info.txt'')]\<rparr>"
  using inspector_absent_entry_or_no_match[where
      c = "fresh_comic (''lib'', ''t'') {((''lib'', ''t''), ''v1.cbz'')}
             (Some ((''lib'', ''t''), ''v1.cbz''))"
      and v = "((''lib'', ''t''), ''v1.cbz'')"
      and w = "\<lparr>fs = title_fs [(''v1.cbz'', Entry (Inr 2) (zip_archive [(''cover.jpg'', Inl UnicodeDecodeError)]))],
                trace = []\<rparr>"
      and y = "Entry (Inr 2) (zip_archive [(''cover.jpg'', Inl UnicodeDecodeError)])"
      and ms = "[(''cover.jpg'', Inl UnicodeDecodeError)]"]
  by (simp add: fs_eval example_eval)

text \<open>
  C3 as stated fails where no line matches: nothing is reported.
\<close>

theorem inspector_no_match_silent_counterexample:
  "get_url_from_cbz (fresh_comic (''lib'', ''t'') {((''lib'', ''t''), ''v1.cbz'')}
                       (Some ((''lib'', ''t''), ''v1.cbz'')))
     \<lparr>fs = title_fs [(''v1.cbz'', Entry (Inr 2) (zip_archive [(''info.txt'', Inr ''Title: x'')]))],
      trace = []\<rparr>
   = Return (fresh_comic (''lib'', ''t'') {((''lib'', ''t''), ''v1.cbz'')}
               (Some ((''lib'', ''t''), ''v1.cbz'')))
       \<lparr>fs = title_fs [(''v1.cbz'', Entry (Inr 2) (zip_archive [(''info.txt'', Inr ''Title: x'')]))],
        trace = [ZipOpened ((''lib'', ''t''), ''v1.cbz'')]\<rparr>"
  by (simp add: fs_eval comic_eval example_eval)

text \<open>
  What the statement above leaves out raises to the caller, since \<open>KeyError\<close> alone
  is caught: a file that is no archive, and a member \<open>info.txt\<close> that does not
  decode. Of two members of one name the last is the one read.
\<close>

lemma corrupt_archive_raises:
  "get_url_from_cbz (fresh_comic (''lib'', ''t'') {((''lib'', ''t''), ''v1.cbz'')}
                       (Some ((''lib'', ''t''), ''v1.cbz'')))
     \<lparr>fs = title_fs [(''v1.cbz'', Entry (Inr 2) no_archive)], trace = []\<rparr>
   = Raise BadZipFile
       \<lparr>fs = title_fs [(''v1.cbz'', Entry (Inr 2) no_archive)],
        trace = [ZipOpened ((''lib'', ''t''), ''v1.cbz'')]\<rparr>"
  by (simp add: fs_eval comic_eval example_eval)

lemma undecodable_entry_raises:
  "get_url_from_cbz (fresh_comic (''lib'', ''t'') {((''lib'', ''t''), ''v1.cbz'')}
                       (Some ((''lib'', ''t''), ''v1.cbz'')))
     \<lparr>fs = title_fs [(''v1.cbz'', Entry (Inr 2) (zip_archive [(''info.txt'', Inl UnicodeDecodeError)]))],
      trace = []\<rparr>
   = Raise UnicodeDecodeError
       \<lparr>fs = title_fs [(''v1.cbz'', Entry (Inr 2) (zip_archive [(''info.txt'', Inl UnicodeDecodeError)]))],
        trace = [ZipOpened ((''lib'', ''t''), ''v1.cbz'')]\<rparr>"
  by (simp add: fs_eval comic_eval example_eval)

lemma last_entry_of_a_name_is_read:
  "read_member [(''info.txt'', Inr ''Site: http://first''), (''info.txt'', Inr ''Site: http://last'')]
     ''info.txt'' = Inr ''Site: http://last''"
  by (simp add: read_member_def)

lemmas update_eval = download_comic_def manga_py_request_def comic_update_def needs_skip_def
  SKIPPED_def library_update_def library_init_def sorted_children_def update_comics_def

subsection \<open>A title without a source\<close>

text \<open>
  C4 at a title with a volume and no source (no config record, no \<open>Site:\<close> line).
  The skip test is false and the tool is not invoked, but the title is no terminal
  state: after \<open>No url available\<close> the method goes on to
  \<open>'mangadex' in self.url\<close> with \<open>self.url = None\<close>, and the \<open>TypeError\<close>
  ends the whole run, whatever the tool would have done.
\<close>

theorem unresolved_title_raises:
  "update_comics only_v1 fetch ''lib''
     \<lparr>fs = title_fs [(''v1.cbz'', Entry (Inr 2) (zip_archive [(''info.txt'', Inr ''Title: x'')]))],
      trace = []\<rparr>
   = Raise TypeError
       \<lparr>fs = title_fs [(''v1.cbz'', Entry (Inr 2) (zip_archive [(''info.txt'', Inr ''Title: x'')]))],
        trace = [ZipOpened ((''lib'', ''t''), ''v1.cbz''),
                 EchoDownloadedComics 1 1,
                 EchoFolder (''lib'', ''t''),
                 EchoUrl JNull (Some ((''lib'', ''t''), ''v1.cbz'')) False,
                 EchoNoUrl]\<rparr>"
  by (simp add: fs_eval comic_eval update_eval example_eval)

end
